theory Spec2Isabelle
  imports Complex_Main "HOL-Library.Multiset" "HOL-Library.Sublist" "HOL-Library.Log_Nat"
begin

section \<open>JavaScript numbers\<close>

text \<open>
  A value found in a field declared \<open>number\<close>: an IEEE 754 binary64 value (NaN, the two
  infinities, or a finite value, given by the real number it stands for), or \<open>null\<close>, which
  is what \<open>JSON.stringify\<close> writes for NaN and the infinities.  The two zeros are not
  told apart: the code below divides only by numbers it has read back from storage, where
  \<open>-0\<close> is written as \<open>0\<close>, and comparisons treat the zeros alike.
\<close>

datatype number = Null | NaN | PInf | NInf | Fin real

text \<open>\<open>ToNumber\<close>: \<open>null\<close> counts as 0 in arithmetic and comparisons.\<close>

definition to_num :: "number \<Rightarrow> number" where
  "to_num a = (case a of Null \<Rightarrow> Fin 0 | _ \<Rightarrow> a)"

definition pow2 :: "int \<Rightarrow> real" where
  "pow2 e = (if 0 \<le> e then 2 ^ nat e else 1 / 2 ^ nat (- e))"

text \<open>The integer part of the binary logarithm of \<open>|x|\<close>, for \<open>x \<noteq> 0\<close>.\<close>

definition ilog2 :: "real \<Rightarrow> int" where
  "ilog2 x = (if 1 \<le> \<bar>x\<bar> then bitlen \<lfloor>\<bar>x\<bar>\<rfloor> - 1 else - bitlen (\<lceil>1 / \<bar>x\<bar>\<rceil> - 1))"

definition round_half_even :: "real \<Rightarrow> int" where
  "round_half_even q =
     (let n = \<lfloor>q\<rfloor>; f = q - of_int n in
      if f < 1/2 then n else if 1/2 < f then n + 1 else if even n then n else n + 1)"

text \<open>
  Rounding of an exact result to binary64, to nearest with ties to even: 53 significant
  bits, a least exponent of \<open>-1074\<close> for the last bit (subnormal numbers included), and
  an infinity from \<open>2^1024\<close> on.
\<close>

definition round64 :: "real \<Rightarrow> number" where
  "round64 x =
     (if x = 0 then Fin 0
      else
        let e = max (ilog2 x - 52) (- 1074);
            y = of_int (round_half_even (x / pow2 e)) * pow2 e
        in if 2 ^ 1024 \<le> \<bar>y\<bar> then (if 0 < x then PInf else NInf) else Fin y)"

text \<open>A real number that is a double.\<close>

definition is_double :: "real \<Rightarrow> bool" where
  "is_double x = (round64 x = Fin x)"

text \<open>
  The operations on doubles.  The last equation of each function is for \<open>Null\<close>, which
  \<open>to_num\<close> has removed before the function is applied.
\<close>

fun neg_d :: "number \<Rightarrow> number" where
  "neg_d (Fin x) = Fin (- x)"
| "neg_d PInf = NInf"
| "neg_d NInf = PInf"
| "neg_d a = NaN"

fun add_d :: "number \<Rightarrow> number \<Rightarrow> number" where
  "add_d (Fin x) (Fin y) = round64 (x + y)"
| "add_d NaN b = NaN"
| "add_d a NaN = NaN"
| "add_d PInf NInf = NaN"
| "add_d NInf PInf = NaN"
| "add_d PInf b = PInf"
| "add_d a PInf = PInf"
| "add_d NInf b = NInf"
| "add_d a NInf = NInf"
| "add_d a b = NaN"

text \<open>The sign of a double other than NaN.\<close>

fun sign_d :: "number \<Rightarrow> int" where
  "sign_d (Fin x) = (if x < 0 then - 1 else if x = 0 then 0 else 1)"
| "sign_d PInf = 1"
| "sign_d NInf = - 1"
| "sign_d a = 0"

fun mul_d :: "number \<Rightarrow> number \<Rightarrow> number" where
  "mul_d (Fin x) (Fin y) = round64 (x * y)"
| "mul_d NaN b = NaN"
| "mul_d a NaN = NaN"
| "mul_d a b =
     (if sign_d a * sign_d b = 0 then NaN else if 0 < sign_d a * sign_d b then PInf else NInf)"

fun div_d :: "number \<Rightarrow> number \<Rightarrow> number" where
  "div_d (Fin x) (Fin y) =
     (if y = 0 then (if x = 0 then NaN else if 0 < x then PInf else NInf)
      else round64 (x / y))"
| "div_d NaN b = NaN"
| "div_d a NaN = NaN"
| "div_d (Fin x) b = Fin 0"
| "div_d a (Fin y) = (if (sign_d a < 0) = (y < 0) then PInf else NInf)"
| "div_d a b = NaN"

fun lt_d :: "number \<Rightarrow> number \<Rightarrow> bool" where
  "lt_d (Fin x) (Fin y) = (x < y)"
| "lt_d NaN b = False"
| "lt_d a NaN = False"
| "lt_d NInf b = (b \<noteq> NInf)"
| "lt_d a PInf = (a \<noteq> PInf)"
| "lt_d a b = False"

text \<open>\<open>a + b\<close>, \<open>a - b\<close>, \<open>a * b\<close>, \<open>a / b\<close>, \<open>a < b\<close>, \<open>a > b\<close>, \<open>a >= b\<close>.\<close>

definition fadd :: "number \<Rightarrow> number \<Rightarrow> number" where
  "fadd a b = add_d (to_num a) (to_num b)"

definition fsub :: "number \<Rightarrow> number \<Rightarrow> number" where
  "fsub a b = add_d (to_num a) (neg_d (to_num b))"

definition fmul :: "number \<Rightarrow> number \<Rightarrow> number" where
  "fmul a b = mul_d (to_num a) (to_num b)"

definition fdiv :: "number \<Rightarrow> number \<Rightarrow> number" where
  "fdiv a b = div_d (to_num a) (to_num b)"

definition flt :: "number \<Rightarrow> number \<Rightarrow> bool" where
  "flt a b = lt_d (to_num a) (to_num b)"

definition fgt :: "number \<Rightarrow> number \<Rightarrow> bool" where
  "fgt a b = lt_d (to_num b) (to_num a)"

definition fge :: "number \<Rightarrow> number \<Rightarrow> bool" where
  "fge a b = (to_num a \<noteq> NaN \<and> to_num b \<noteq> NaN \<and> \<not> lt_d (to_num a) (to_num b))"

text \<open>
  What a number is after \<open>JSON.stringify\<close> and \<open>JSON.parse\<close>: NaN and the infinities
  come back as \<open>null\<close>, every other number as itself.
\<close>

definition json_num :: "number \<Rightarrow> number" where
  "json_num a = (case a of Fin x \<Rightarrow> Fin x | _ \<Rightarrow> Null)"

text \<open>The real number a finite value stands for (0 for the others).\<close>

definition val :: "number \<Rightarrow> real" where
  "val a = (case a of Fin x \<Rightarrow> x | _ \<Rightarrow> 0)"

definition is_fin :: "number \<Rightarrow> bool" where
  "is_fin a = (case a of Fin x \<Rightarrow> True | _ \<Rightarrow> False)"

section \<open>The paper-trading store (paper-trading lib, \<open>paperStore\<close>)\<close>

text \<open>
  \<open>Date.now()\<close> is \<^typ>\<open>int\<close> (whole milliseconds); every other number of the store is
  a \<^typ>\<open>number\<close>, and every arithmetic operation of the code is the rounded operation
  on doubles.
\<close>

datatype order_type = BUY | SELL
datatype outcome = YES | NO
datatype order_status = OPEN | CLOSED | CANCELLED

text \<open>\<open>PaperOrder\<close>; the optional fields \<open>exitPrice?\<close>, \<open>pnl?\<close>, \<open>roi?\<close> are options.\<close>

record paper_order =
  oid :: string
  marketId :: string
  marketTitle :: string
  otype :: order_type
  outcome_of :: outcome
  amount :: number
  entryPrice :: number
  shares :: number
  timestamp :: int
  status :: order_status
  exitPrice :: "number option"
  pnl :: "number option"
  roi :: "number option"

text \<open>\<open>Omit<PaperOrder, 'id' | 'timestamp' | 'status'>\<close>, the argument of \<open>addOrder\<close>.\<close>

record order_input =
  in_marketId :: string
  in_marketTitle :: string
  in_type :: order_type
  in_outcome :: outcome
  in_amount :: number
  in_entryPrice :: number
  in_shares :: number
  in_exitPrice :: "number option"
  in_pnl :: "number option"
  in_roi :: "number option"

record paper_profile =
  username :: string
  initialBalance :: number
  currentBalance :: number
  totalPnL :: number
  winRate :: number
  tradesCount :: number
  active :: bool
  autoFollow :: bool

definition DEFAULT_PROFILE :: paper_profile where
  "DEFAULT_PROFILE =
     \<lparr>username = ''Ghost Trader'', initialBalance = Fin 1000, currentBalance = Fin 1000,
      totalPnL = Fin 0, winRate = Fin 0, tradesCount = Fin 0, active = False,
      autoFollow = False\<rparr>"

text \<open>An order and a profile after \<open>JSON.stringify\<close> and \<open>JSON.parse\<close>.\<close>

definition json_order :: "paper_order \<Rightarrow> paper_order" where
  "json_order x =
     x\<lparr>amount := json_num (amount x), entryPrice := json_num (entryPrice x),
       shares := json_num (shares x), exitPrice := map_option json_num (exitPrice x),
       pnl := map_option json_num (pnl x), roi := map_option json_num (roi x)\<rparr>"

definition json_profile :: "paper_profile \<Rightarrow> paper_profile" where
  "json_profile p =
     p\<lparr>initialBalance := json_num (initialBalance p),
       currentBalance := json_num (currentBalance p), totalPnL := json_num (totalPnL p),
       winRate := json_num (winRate p), tradesCount := json_num (tradesCount p)\<rparr>"

text \<open>
  The state the store works on, in the browser (\<open>window\<close> defined): the two
  \<open>localStorage\<close> slots \<open>polybot_paper_trading_profile\<close> and
  \<open>polybot_paper_trading_orders\<close>, and the module-level object \<open>DEFAULT_PROFILE\<close>.  A slot
  is absent or holds JSON text; the model keeps the value that was handed to
  \<open>JSON.stringify\<close>, and reading the slot gives that value as JSON returns it.
  \<open>DEFAULT_PROFILE\<close> is part of the state because \<open>getProfile\<close> hands out that very
  object when the profile slot is empty, and \<open>addOrder\<close> and \<open>closeOrder\<close> assign to the
  fields of the object they got.
\<close>

record store =
  default_obj :: paper_profile
  ls_profile :: "paper_profile option"
  ls_orders :: "paper_order list option"

text \<open>A freshly loaded page on a browser whose storage holds \<open>prof\<close> and \<open>ords\<close>.\<close>

definition page_load :: "paper_profile option \<Rightarrow> paper_order list option \<Rightarrow> store" where
  "page_load prof ords = \<lparr>default_obj = DEFAULT_PROFILE, ls_profile = prof, ls_orders = ords\<rparr>"

definition getProfile :: "store \<Rightarrow> paper_profile" where
  "getProfile s = (case ls_profile s of Some p \<Rightarrow> json_profile p | None \<Rightarrow> default_obj s)"

definition getOrders :: "store \<Rightarrow> paper_order list" where
  "getOrders s = (case ls_orders s of Some os \<Rightarrow> map json_order os | None \<Rightarrow> [])"

definition saveProfile :: "paper_profile \<Rightarrow> store \<Rightarrow> store" where
  "saveProfile profile s = s\<lparr>ls_profile := Some profile\<rparr>"

text \<open>
  Assignments to the fields of the object returned by \<open>getProfile\<close>: they reach
  \<open>DEFAULT_PROFILE\<close> exactly when the profile slot was empty.
\<close>

definition mutate_profile :: "paper_profile \<Rightarrow> store \<Rightarrow> store" where
  "mutate_profile profile' s =
     (if ls_profile s = None then s\<lparr>default_obj := profile'\<rparr> else s)"

definition mk_order :: "order_input \<Rightarrow> string \<Rightarrow> int \<Rightarrow> paper_order" where
  "mk_order inp new_id now =
     \<lparr>oid = new_id, marketId = in_marketId inp, marketTitle = in_marketTitle inp,
      otype = in_type inp, outcome_of = in_outcome inp, amount = in_amount inp,
      entryPrice = in_entryPrice inp, shares = in_shares inp, timestamp = now,
      status = OPEN, exitPrice = in_exitPrice inp, pnl = in_pnl inp, roi = in_roi inp\<rparr>"

text \<open>
  \<open>addOrder\<close>.  The value of \<open>Math.random().toString(36).substr(2, 9)\<close> and of
  \<open>Date.now()\<close> are the parameters \<open>new_id\<close> and \<open>now\<close>.  The result is the returned
  order (\<open>None\<close> for \<open>null\<close>) and the state after the call.
\<close>

definition addOrder :: "order_input \<Rightarrow> string \<Rightarrow> int \<Rightarrow> store \<Rightarrow> paper_order option \<times> store" where
  "addOrder inp new_id now s =
     (let orders = getOrders s; profile = getProfile s in
      if flt (currentBalance profile) (in_amount inp) then (None, s)
      else
        let newOrder = mk_order inp new_id now;
            orders' = newOrder # orders;
            profile' = profile\<lparr>currentBalance := fsub (currentBalance profile) (in_amount inp),
                               tradesCount := fadd (tradesCount profile) (Fin 1)\<rparr>
        in (Some newOrder,
            saveProfile profile' ((mutate_profile profile' s)\<lparr>ls_orders := Some orders'\<rparr>)))"

text \<open>\<open>orders.findIndex(o => o.id === orderId)\<close>, \<open>None\<close> for \<open>-1\<close>.\<close>

fun findIndex :: "string \<Rightarrow> paper_order list \<Rightarrow> nat option" where
  "findIndex k [] = None"
| "findIndex k (x # xs) =
     (if oid x = k then Some 0
      else (case findIndex k xs of None \<Rightarrow> None | Some i \<Rightarrow> Some (Suc i)))"

text \<open>\<open>(o.pnl || 0)\<close>: 0 for a missing, \<open>null\<close>, NaN or zero \<open>pnl\<close>.\<close>

definition pnl_or_0 :: "paper_order \<Rightarrow> number" where
  "pnl_or_0 x =
     (case pnl x of
        None \<Rightarrow> Fin 0
      | Some p \<Rightarrow> if p = Null \<or> p = NaN \<or> p = Fin 0 then Fin 0 else p)"

text \<open>\<open>closeOrder\<close>.\<close>

definition closeOrder :: "string \<Rightarrow> number \<Rightarrow> store \<Rightarrow> store" where
  "closeOrder orderId exit_price s =
     (let orders = getOrders s; profile = getProfile s in
      case findIndex orderId orders of
        None \<Rightarrow> s
      | Some orderIndex \<Rightarrow>
          let order = orders ! orderIndex in
          if status order \<noteq> OPEN then s
          else
            let returnAmount = fmul (shares order) exit_price;
                pnl' = fsub returnAmount (amount order);
                roi' = fmul (fdiv pnl' (amount order)) (Fin 100);
                orders' = orders[orderIndex := order\<lparr>status := CLOSED, exitPrice := Some exit_price,
                                                     pnl := Some pnl', roi := Some roi'\<rparr>];
                wins = length (filter (\<lambda>x. fgt (pnl_or_0 x) (Fin 0)) orders');
                closed = length (filter (\<lambda>x. status x = CLOSED) orders');
                profile' = profile\<lparr>currentBalance := fadd (currentBalance profile) returnAmount,
                                   totalPnL := fadd (totalPnL profile) pnl',
                                   winRate := (if closed > 0
                                               then fmul (fdiv (Fin (real wins)) (Fin (real closed))) (Fin 100)
                                               else Fin 0)\<rparr>
            in saveProfile profile' ((mutate_profile profile' s)\<lparr>ls_orders := Some orders'\<rparr>))"

definition reset :: "number \<Rightarrow> store \<Rightarrow> store" where
  "reset balance s =
     (let newProfile = (default_obj s)\<lparr>initialBalance := balance, currentBalance := balance,
                                       active := True\<rparr>
      in saveProfile newProfile (s\<lparr>ls_orders := Some []\<rparr>))"

text \<open>Sequences of store calls, applied left to right.\<close>

datatype store_op =
    AddOrder order_input string int
  | CloseOrder string number
  | SaveProfile paper_profile

fun apply_op :: "store_op \<Rightarrow> store \<Rightarrow> store" where
  "apply_op (AddOrder inp new_id now) s = snd (addOrder inp new_id now s)"
| "apply_op (CloseOrder orderId exit_price) s = closeOrder orderId exit_price s"
| "apply_op (SaveProfile profile) s = saveProfile profile s"

fun run :: "store_op list \<Rightarrow> store \<Rightarrow> store" where
  "run [] s = s"
| "run (x # xs) s = run xs (apply_op x s)"


text \<open>Quantities the statements below speak about, as exact real numbers.\<close>

definition open_count :: "store \<Rightarrow> nat" where
  "open_count s = length (filter (\<lambda>x. status x = OPEN) (getOrders s))"





text \<open>
  The sign the specification attaches to a position's side: \<open>+1\<close> for YES (long),
  \<open>-1\<close> for NO (short).
\<close>

definition directionSign :: "outcome \<Rightarrow> real" where
  "directionSign oc = (case oc of YES \<Rightarrow> 1 | NO \<Rightarrow> - 1)"

text \<open>A concrete \<open>addOrder\<close> argument with finite numbers and without the optional fields.\<close>

definition buy :: "string \<Rightarrow> outcome \<Rightarrow> real \<Rightarrow> real \<Rightarrow> real \<Rightarrow> order_input" where
  "buy mid oc amt price sh =
     \<lparr>in_marketId = mid, in_marketTitle = mid, in_type = BUY, in_outcome = oc,
      in_amount = Fin amt, in_entryPrice = Fin price, in_shares = Fin sh,
      in_exitPrice = None, in_pnl = None, in_roi = None\<rparr>"

section \<open>The dynamic market filter (\<open>filterSnipableMarkets\<close>)\<close>

text \<open>
  An element \<open>{ market, sniping }\<close> of the list.  The filter reads \<open>sniping.score\<close> only;
  \<open>'a\<close> stands for everything else (\<open>ProcessedMarket\<close> and the other fields of
  \<open>SnipabilityScore\<close>, whose declarations are not among the sources).
\<close>

record 'a scored =
  market :: 'a
  sniping_score :: number

text \<open>The comparator \<open>(a, b) => b.sniping.score - a.sniping.score\<close>.\<close>

definition by_score_desc :: "'a scored \<Rightarrow> 'a scored \<Rightarrow> number" where
  "by_score_desc a b = fsub (sniping_score b) (sniping_score a)"

text \<open>
  \<open>markets.sort(comparator)\<close>.  ECMAScript puts \<open>a\<close> after \<open>b\<close> when the comparator's
  result for \<open>(a, b)\<close> is above 0, takes a NaN result for 0, and keeps the input order of
  elements that compare as 0 (the sort is stable).  For a consistent comparator that fixes
  the result, which insertion computes.  With NaN scores the comparator is not
  consistent, and the standard leaves the order to the engine; the model then still
  inserts.
\<close>

fun sort_insert :: "'a scored \<Rightarrow> 'a scored list \<Rightarrow> 'a scored list" where
  "sort_insert x [] = [x]"
| "sort_insert x (y # ys) =
     (if fgt (by_score_desc x y) (Fin 0) then y # sort_insert x ys else x # y # ys)"

definition sort_desc :: "'a scored list \<Rightarrow> 'a scored list" where
  "sort_desc markets = foldr sort_insert markets []"

text \<open>
  The \<open>for (const minScore of thresholds)\<close> loop; \<open>None\<close> when it ends without a
  \<open>return\<close>.  \<open>last_threshold\<close> is \<open>thresholds[thresholds.length - 1]\<close> and
  \<open>last_resort\<close> the constant of the last-resort test (20 in \<open>dynamic-filter.ts\<close>,
  10 in the older copy of the function).
\<close>

fun threshold_loop ::
  "nat \<Rightarrow> real \<Rightarrow> nat \<Rightarrow> nat \<Rightarrow> 'a scored list \<Rightarrow> real list \<Rightarrow> 'a scored list option" where
  "threshold_loop last_resort last_threshold targetMin targetMax sorted_markets [] = None"
| "threshold_loop last_resort last_threshold targetMin targetMax sorted_markets (minScore # rest) =
     (let filtered = filter (\<lambda>m. fge (sniping_score m) (Fin minScore)) sorted_markets in
      if length filtered \<ge> targetMin \<and> length filtered \<le> targetMax then Some filtered
      else if length filtered > targetMax then Some (take targetMax filtered)
      else if length filtered < targetMin \<and> minScore > last_threshold
        then threshold_loop last_resort last_threshold targetMin targetMax sorted_markets rest
      else if length filtered \<ge> last_resort then Some filtered
      else threshold_loop last_resort last_threshold targetMin targetMax sorted_markets rest)"

text \<open>
  \<open>src/lib/dynamic-filter.ts\<close>.  An omitted argument (\<open>None\<close>) takes the default:
  \<open>targetMin = 40\<close>, \<open>targetMax = 200\<close>.
\<close>

definition filterSnipableMarkets ::
  "'a scored list \<Rightarrow> nat option \<Rightarrow> nat option \<Rightarrow> 'a scored list" where
  "filterSnipableMarkets markets targetMin targetMax =
     (let tmin = (case targetMin of None \<Rightarrow> 40 | Some n \<Rightarrow> n);
          tmax = (case targetMax of None \<Rightarrow> 200 | Some n \<Rightarrow> n);
          sorted_markets = sort_desc markets;
          thresholds = [60, 55, 50, 45, 40, 35, 30]
      in case threshold_loop 20 (last thresholds) tmin tmax sorted_markets thresholds of
           Some result \<Rightarrow> result
         | None \<Rightarrow> take (min 50 (length sorted_markets)) sorted_markets)"

text \<open>
  The older copy of the function (defaults 25 and 500, thresholds from 50 down to 5,
  last resort from 10 markets, fallback to the top 100).
\<close>

definition filterSnipableMarkets_v1 ::
  "'a scored list \<Rightarrow> nat option \<Rightarrow> nat option \<Rightarrow> 'a scored list" where
  "filterSnipableMarkets_v1 markets targetMin targetMax =
     (let tmin = (case targetMin of None \<Rightarrow> 25 | Some n \<Rightarrow> n);
          tmax = (case targetMax of None \<Rightarrow> 500 | Some n \<Rightarrow> n);
          sorted_markets = sort_desc markets;
          thresholds = [50, 45, 40, 35, 30, 25, 20, 15, 10, 5]
      in case threshold_loop 10 (last thresholds) tmin tmax sorted_markets thresholds of
           Some result \<Rightarrow> result
         | None \<Rightarrow> take (min 100 (length sorted_markets)) sorted_markets)"

text \<open>A score that is a double other than NaN.\<close>

definition is_score :: "number \<Rightarrow> bool" where
  "is_score a = (case a of Fin x \<Rightarrow> is_double x | PInf \<Rightarrow> True | NInf \<Rightarrow> True | _ \<Rightarrow> False)"

text \<open>Highest score first.\<close>

definition desc :: "'a scored list \<Rightarrow> bool" where
  "desc xs = sorted_wrt (\<lambda>a b. fge (sniping_score a) (sniping_score b)) xs"

text \<open>Three markets, the second with a NaN score.\<close>

definition nan_markets :: "nat scored list" where
  "nan_markets =
     [\<lparr>market = 1, sniping_score = Fin 50\<rparr>, \<lparr>market = 2, sniping_score = NaN\<rparr>,
      \<lparr>market = 3, sniping_score = Fin 70\<rparr>]"

section \<open>The signal-and-exit engine\<close>

text \<open>
  The engine's modules (\<open>volatility.py\<close>, \<open>positions.py\<close>, \<open>trading.py\<close>) are named by the
  README and are not among the sources.  The definitions of this section are written from
  the specification's contracts for RollingWindow, SignalEngine and PositionTracker.
  Prices and z-scores are \<^typ>\<open>real\<close>, times are whole seconds.
\<close>

text \<open>Modelled from the spec: the recognized configuration options, times in seconds.\<close>

record engine_config =
  entryThreshold :: real
  exitThreshold :: real
  lookbackSeconds :: int
  betAmount :: real
  maxPositions :: nat
  cooldownSeconds :: int
  minCloseBuffer :: int
  maxHoldDuration :: int
  minSamples :: nat

text \<open>
  Modelled from the spec: the configuration surface with its defaults; the minimum sample
  count is the spec's "e.g., 2".
\<close>

definition default_config :: engine_config where
  "default_config =
     \<lparr>entryThreshold = 5/2, exitThreshold = 1/2, lookbackSeconds = 60, betAmount = 10,
      maxPositions = 5, cooldownSeconds = 60, minCloseBuffer = 120, maxHoldDuration = 300,
      minSamples = 2\<rparr>"

text \<open>Modelled from the spec: PriceSample and the result of \<open>stats()\<close>.\<close>

record price_sample =
  ps_asset :: string
  ps_price :: real
  ps_timestamp :: int

datatype window_stats = Insufficient | Stats (st_mean: real) (st_stddev: real) (st_count: nat)

text \<open>Division that reports a zero divisor instead of returning a number.\<close>

definition checked_div :: "real \<Rightarrow> real \<Rightarrow> real option" where
  "checked_div a b = (if b = 0 then None else Some (a / b))"

text \<open>
  Modelled from the spec: \<open>RollingWindow.stats()\<close>, missing from the sources.  It gives
  (mean, sample standard deviation, count) over the window's contents, or the
  insufficient-data result when the count is below the configured minimum or below 2
  (where the sample standard deviation is undefined).  \<open>None\<close> stands for a division by
  zero.
\<close>

definition stats :: "nat \<Rightarrow> price_sample list \<Rightarrow> window_stats option" where
  "stats min_samples window =
     (let xs = map ps_price window; n = length xs in
      if n < min_samples \<or> n < 2 then Some Insufficient
      else
        case checked_div (sum_list xs) (real n) of
          None \<Rightarrow> None
        | Some mean \<Rightarrow>
            (case checked_div (\<Sum>x\<leftarrow>xs. (x - mean)\<^sup>2) (real n - 1) of
               None \<Rightarrow> None
             | Some variance \<Rightarrow> Some (Stats mean (sqrt variance) n)))"

text \<open>Modelled from the spec: the kinds of Signal.\<close>

datatype signal_kind = ENTER_YES | ENTER_NO | EXIT | NONE

text \<open>
  Modelled from the spec: \<open>z = (currentPrice - mean) / stddev\<close>; undefined (\<open>None\<close>) for
  insufficient statistics and for a standard deviation of 0.
\<close>

definition zscore :: "real \<Rightarrow> window_stats \<Rightarrow> real option" where
  "zscore currentPrice windowStats =
     (case windowStats of
        Insufficient \<Rightarrow> None
      | Stats mean stddev n \<Rightarrow> checked_div (currentPrice - mean) stddev)"

text \<open>
  Modelled from the spec: the over-correction exit, "the sign of z has flipped relative to
  entry z with magnitude beyond threshold", read with the entry threshold.
\<close>

definition over_correction :: "engine_config \<Rightarrow> real \<Rightarrow> real \<Rightarrow> bool" where
  "over_correction cfg entry_z z = (sgn z * sgn entry_z < 0 \<and> \<bar>z\<bar> \<ge> entryThreshold cfg)"

text \<open>
  Modelled from the spec: \<open>SignalEngine.evaluate(currentPrice, windowStats,
  positionOpenForAsset)\<close>, missing from the sources; the rules in the order the spec lists
  them.  The third argument is \<open>None\<close> when no position is open for the asset and
  \<open>Some entry_z\<close> when one is, entered at z-score \<open>entry_z\<close>.  The result is the kind of
  the emitted signal; \<open>None\<close> where the spec defines no z-score (standard deviation 0).
\<close>

definition evaluate ::
  "engine_config \<Rightarrow> real \<Rightarrow> window_stats \<Rightarrow> real option \<Rightarrow> signal_kind option" where
  "evaluate cfg currentPrice windowStats positionOpen =
     (case windowStats of
        Insufficient \<Rightarrow> Some NONE
      | Stats mean stddev n \<Rightarrow>
          (case zscore currentPrice windowStats of
             None \<Rightarrow> None
           | Some z \<Rightarrow>
               Some (if positionOpen = None \<and> z \<ge> entryThreshold cfg then ENTER_NO
                     else if positionOpen = None \<and> z \<le> - entryThreshold cfg then ENTER_YES
                     else if positionOpen \<noteq> None \<and> \<bar>z\<bar> \<le> exitThreshold cfg then EXIT
                     else if (case positionOpen of
                                None \<Rightarrow> False
                              | Some entry_z \<Rightarrow> over_correction cfg entry_z z) then EXIT
                     else NONE)))"

text \<open>
  Modelled from the spec: the per-asset step of a tick from RollingWindow to SignalEngine,
  \<open>evaluate\<close> on the statistics of the asset's window.
\<close>

definition signal_for ::
  "engine_config \<Rightarrow> real \<Rightarrow> price_sample list \<Rightarrow> real option \<Rightarrow> signal_kind option" where
  "signal_for cfg currentPrice window positionOpen =
     (case stats (minSamples cfg) window of
        None \<Rightarrow> None
      | Some windowStats \<Rightarrow> evaluate cfg currentPrice windowStats positionOpen)"

text \<open>Modelled from the spec: Position, with status OPEN or CLOSED.\<close>

datatype position_status = POS_OPEN | POS_CLOSED

record position =
  p_id :: string
  p_asset :: string
  p_side :: outcome
  p_entryPrice :: real
  p_size :: real
  p_openedAt :: int
  p_marketExpiry :: int
  p_status :: position_status
  p_exitPrice :: "real option"
  p_pnl :: "real option"

text \<open>
  Modelled from the spec: a forced close, missing from the sources.  The spec calls it
  unconditional and states its invariant for all ticks, so the position leaves the OPEN
  state at this tick whatever \<open>OrderGateway.close\<close> answers; where the general failure
  semantics (a rejected close leaves a position unclosed) and the invariant pull apart,
  the model follows the invariant.  The gateway is the function \<open>gw_close\<close> from position
  ids to the accepted exit price, \<open>None\<close> for Rejected; an accepted close supplies the
  exit price and the realized pnl \<open>(exitPrice - entryPrice) * size * directionSign\<close>, a
  rejected one leaves them unset.
\<close>

definition close_position :: "(string \<Rightarrow> real option) \<Rightarrow> position \<Rightarrow> position" where
  "close_position gw_close p =
     p\<lparr>p_status := POS_CLOSED, p_exitPrice := gw_close (p_id p),
       p_pnl := (case gw_close (p_id p) of
                   None \<Rightarrow> None
                 | Some px \<Rightarrow> Some ((px - p_entryPrice p) * p_size p * directionSign (p_side p)))\<rparr>"

text \<open>
  Modelled from the spec: the forced-close rule of PositionTracker.  A position is due
  from \<open>now = marketExpiry - minCloseBuffer\<close> on, the bound of the forced-close invariant
  and of Scenario D (expiry \<open>T + 130\<close>, buffer 120, due at \<open>T + 10\<close>); this covers every
  position with \<open>marketExpiry - now < minCloseBuffer\<close>.  It is also due once
  \<open>now - openedAt > maxHoldDuration\<close>.
\<close>

definition forced_close_due :: "engine_config \<Rightarrow> int \<Rightarrow> position \<Rightarrow> bool" where
  "forced_close_due cfg now p =
     (now \<ge> p_marketExpiry p - minCloseBuffer cfg \<or> now - p_openedAt p > maxHoldDuration cfg)"

text \<open>
  Modelled from the spec: the forced-close pass that PositionTracker runs at every tick,
  before and independently of the tick's signals; missing from the sources.
\<close>

definition forced_closes ::
  "engine_config \<Rightarrow> (string \<Rightarrow> real option) \<Rightarrow> int \<Rightarrow> position list \<Rightarrow> position list" where
  "forced_closes cfg gw_close now ps =
     map (\<lambda>p. if p_status p = POS_OPEN \<and> forced_close_due cfg now p
               then close_position gw_close p else p) ps"

section \<open>Concrete inputs and auxiliary notions of the statements\<close>




text \<open>A store holding one open NO order.\<close>

definition no_state :: store where
  "no_state = snd (addOrder (buy ''m1'' NO 2 (1/2) 4) ''a'' 0 (page_load None None))"

text \<open>A store after a reset to 1000 and five opened orders on five markets.\<close>

definition five_open :: store where
  "five_open =
     run [AddOrder (buy ''m1'' YES 10 (1/2) 20) ''a1'' 1,
          AddOrder (buy ''m2'' YES 10 (1/2) 20) ''a2'' 2,
          AddOrder (buy ''m3'' YES 10 (1/2) 20) ''a3'' 3,
          AddOrder (buy ''m4'' YES 10 (1/2) 20) ''a4'' 4,
          AddOrder (buy ''m5'' YES 10 (1/2) 20) ''a5'' 5] (reset (Fin 1000) (page_load None None))"

text \<open>Two orders on the same market, one second apart.\<close>

definition btc_twice :: "paper_order option \<times> store" where
  "btc_twice =
     addOrder (buy ''BTC'' NO 10 (1/2) 20) ''b'' 2000
       (snd (addOrder (buy ''BTC'' YES 10 (1/2) 20) ''a'' 1000 (reset (Fin 1000) (page_load None None))))"

text \<open>What the cooldown rule looks at in an order.\<close>

definition order_summary :: "paper_order \<Rightarrow> string \<times> int \<times> order_status" where
  "order_summary x = (marketId x, timestamp x, status x)"

text \<open>The store of \<open>no_state\<close> after its order was closed at 3/4.\<close>

definition closed_state :: store where
  "closed_state = closeOrder ''a'' (Fin (3/4)) no_state"












text \<open>Three markets with finite scores.\<close>

definition three_markets :: "nat scored list" where
  "three_markets =
     [\<lparr>market = 1, sniping_score = Fin 50\<rparr>, \<lparr>market = 2, sniping_score = Fin 70\<rparr>,
      \<lparr>market = 3, sniping_score = Fin 30\<rparr>]"

section \<open>Verification\<close>

subsection \<open>Facts about numbers\<close>

lemmas r64 = round64_def ilog2_def pow2_def round_half_even_def Let_def compute_bitlen

lemma json_num_simps [simp]:
  "json_num (Fin x) = Fin x" "json_num Null = Null" "json_num NaN = Null"
  "json_num PInf = Null" "json_num NInf = Null" "json_num (json_num a) = json_num a"
  by (simp_all add: json_num_def split: number.splits)

lemma to_num_simps [simp]:
  "to_num (Fin x) = Fin x" "to_num Null = Fin 0" "to_num NaN = NaN"
  "to_num PInf = PInf" "to_num NInf = NInf"
  by (simp_all add: to_num_def)

lemma val_simps [simp]:
  "val (Fin x) = x" "val Null = 0" "val NaN = 0" "val PInf = 0" "val NInf = 0"
  by (simp_all add: val_def)

lemma is_fin_simps [simp]:
  "is_fin (Fin x)" "\<not> is_fin Null" "\<not> is_fin NaN" "\<not> is_fin PInf" "\<not> is_fin NInf"
  by (simp_all add: is_fin_def)

lemma is_fin_iff: "is_fin a \<longleftrightarrow> a = Fin (val a)"
  by (cases a) simp_all

lemma flt_Fin [simp]: "flt (Fin x) (Fin y) \<longleftrightarrow> x < y"
  by (simp add: flt_def)

lemma fsub_Fin: "fsub (Fin x) (Fin y) = round64 (x - y)"
  by (simp add: fsub_def)


lemma fmul_Fin: "fmul (Fin x) (Fin y) = round64 (x * y)"
  by (simp add: fmul_def)

lemma fdiv_Fin: "y \<noteq> 0 \<Longrightarrow> fdiv (Fin x) (Fin y) = round64 (x / y)"
  by (simp add: fdiv_def)

subsection \<open>Facts about the store\<close>

lemma json_order_idem [simp]: "json_order (json_order x) = json_order x"
  by (simp add: json_order_def option.map_comp comp_def)

lemma json_order_sel [simp]:
  "status (json_order x) = status x" "oid (json_order x) = oid x"
  "marketId (json_order x) = marketId x" "timestamp (json_order x) = timestamp x"
  "outcome_of (json_order x) = outcome_of x"
  "amount (json_order x) = json_num (amount x)" "shares (json_order x) = json_num (shares x)"
  "entryPrice (json_order x) = json_num (entryPrice x)"
  "exitPrice (json_order x) = map_option json_num (exitPrice x)"
  "pnl (json_order x) = map_option json_num (pnl x)"
  by (simp_all add: json_order_def)

lemma json_profile_sel [simp]:
  "currentBalance (json_profile p) = json_num (currentBalance p)"
  "initialBalance (json_profile p) = json_num (initialBalance p)"
  "totalPnL (json_profile p) = json_num (totalPnL p)"
  "tradesCount (json_profile p) = json_num (tradesCount p)"
  by (simp_all add: json_profile_def)

lemma map_json_getOrders [simp]: "map json_order (getOrders s) = getOrders s"
  by (simp add: getOrders_def split: option.splits)

lemma json_getOrders_nth: "i < length (getOrders s) \<Longrightarrow> json_order (getOrders s ! i) = getOrders s ! i"
  by (metis map_json_getOrders nth_map)

lemma findIndex_Some_less: "findIndex k xs = Some i \<Longrightarrow> i < length xs"
  by (induction xs arbitrary: i) (auto split: if_splits option.splits)

lemma findIndex_Some_oid: "findIndex k xs = Some i \<Longrightarrow> oid (xs ! i) = k"
  by (induction xs arbitrary: i) (auto split: if_splits option.splits)

lemma getOrders_simps [simp]:
  "getOrders (s\<lparr>ls_orders := Some xs\<rparr>) = map json_order xs"
  "getOrders (saveProfile p s) = getOrders s"
  "getOrders (mutate_profile p s) = getOrders s"
  by (simp_all add: getOrders_def saveProfile_def mutate_profile_def)

lemma getProfile_saveProfile [simp]: "getProfile (saveProfile p s) = json_profile p"
  by (simp add: getProfile_def saveProfile_def)

lemma getOrders_addOrder:
  "getOrders (snd (addOrder inp new_id now s)) =
     (if flt (currentBalance (getProfile s)) (in_amount inp) then getOrders s
      else json_order (mk_order inp new_id now) # getOrders s)"
  by (simp add: addOrder_def Let_def)

text \<open>The order that \<open>closeOrder\<close> writes in place of the open order \<open>x\<close>.\<close>

lemma getOrders_closeOrder:
  "getOrders (closeOrder k px s) =
     (case findIndex k (getOrders s) of
        None \<Rightarrow> getOrders s
      | Some i \<Rightarrow>
          let x = getOrders s ! i in
          if status x \<noteq> OPEN then getOrders s
          else (getOrders s)[i := json_order (x\<lparr>status := CLOSED, exitPrice := Some px,
                  pnl := Some (fsub (fmul (shares x) px) (amount x)),
                  roi := Some (fmul (fdiv (fsub (fmul (shares x) px) (amount x)) (amount x)) (Fin 100))\<rparr>)])"
  by (simp add: closeOrder_def Let_def map_update split: option.splits)

lemma fst_addOrder:
  "fst (addOrder inp new_id now s) =
     (if flt (currentBalance (getProfile s)) (in_amount inp) then None
      else Some (mk_order inp new_id now))"
  by (simp add: addOrder_def Let_def)

lemma open_count_addOrder:
  "open_count (snd (addOrder inp new_id now s)) =
     (if flt (currentBalance (getProfile s)) (in_amount inp) then open_count s
      else Suc (open_count s))"
  by (simp add: open_count_def getOrders_addOrder mk_order_def)

lemma getProfile_addOrder:
  "getProfile (snd (addOrder inp new_id now s)) =
     (if flt (currentBalance (getProfile s)) (in_amount inp) then getProfile s
      else json_profile
             ((getProfile s)\<lparr>currentBalance := fsub (currentBalance (getProfile s)) (in_amount inp),
                              tradesCount := fadd (tradesCount (getProfile s)) (Fin 1)\<rparr>))"
  by (simp add: addOrder_def Let_def)

lemma getProfile_reset:
  "getProfile (reset b s) =
     json_profile ((default_obj s)\<lparr>initialBalance := b, currentBalance := b, active := True\<rparr>)"
  by (simp add: reset_def Let_def)

lemma getOrders_reset [simp]: "getOrders (reset b s) = []"
  by (simp add: reset_def Let_def)

lemma buy_sel:
  "in_amount (buy m oc a p sh) = Fin a" "in_shares (buy m oc a p sh) = Fin sh"
  "in_entryPrice (buy m oc a p sh) = Fin p" "in_marketId (buy m oc a p sh) = m"
  "in_outcome (buy m oc a p sh) = oc" "in_exitPrice (buy m oc a p sh) = None"
  "in_pnl (buy m oc a p sh) = None" "in_roi (buy m oc a p sh) = None"
  by (simp_all add: buy_def)

lemma mk_order_sel:
  "oid (mk_order inp i t) = i" "status (mk_order inp i t) = OPEN"
  "amount (mk_order inp i t) = in_amount inp" "shares (mk_order inp i t) = in_shares inp"
  "entryPrice (mk_order inp i t) = in_entryPrice inp" "marketId (mk_order inp i t) = in_marketId inp"
  "timestamp (mk_order inp i t) = t" "outcome_of (mk_order inp i t) = in_outcome inp"
  "exitPrice (mk_order inp i t) = in_exitPrice inp" "pnl (mk_order inp i t) = in_pnl inp"
  by (simp_all add: mk_order_def)

lemma page_load_sel:
  "default_obj (page_load prof ords) = DEFAULT_PROFILE"
  "ls_profile (page_load prof ords) = prof" "ls_orders (page_load prof ords) = ords"
  by (simp_all add: page_load_def)

lemma DEFAULT_PROFILE_sel:
  "currentBalance DEFAULT_PROFILE = Fin 1000" "initialBalance DEFAULT_PROFILE = Fin 1000"
  "totalPnL DEFAULT_PROFILE = Fin 0" "tradesCount DEFAULT_PROFILE = Fin 0"
  by (simp_all add: DEFAULT_PROFILE_def)

lemma page_load_empty:
  "getOrders (page_load None None) = []" "getProfile (page_load None None) = DEFAULT_PROFILE"
  by (simp_all add: getOrders_def getProfile_def page_load_sel)

lemma no_state_orders: "getOrders no_state = [json_order (mk_order (buy ''m1'' NO 2 (1/2) 4) ''a'' 0)]"
  by (simp add: no_state_def getOrders_addOrder page_load_empty DEFAULT_PROFILE_sel buy_sel)

lemma no_state_close:
  "findIndex ''a'' (getOrders no_state) = Some 0"
  "status (getOrders no_state ! 0) = OPEN"
  "outcome_of (getOrders no_state ! 0) = NO"
  "shares (getOrders no_state ! 0) = Fin 4"
  "amount (getOrders no_state ! 0) = Fin 2"
  "entryPrice (getOrders no_state ! 0) = Fin (1/2)"
  by (simp_all add: no_state_orders mk_order_sel buy_sel)

lemma no_state_pnl: "fsub (fmul (Fin 4) (Fin (3/4))) (Fin 2) = Fin 1"
proof -
  have "fmul (Fin 4) (Fin (3/4)) = Fin 3" by (simp add: fmul_Fin r64)
  moreover have "fsub (Fin 3) (Fin 2) = Fin 1" by (simp add: fsub_Fin r64)
  ultimately show ?thesis by simp
qed

lemma balance_after_reset [simp]:
  "currentBalance (getProfile (reset b s)) = json_num b"
  "initialBalance (getProfile (reset b s)) = json_num b"
  by (simp_all add: getProfile_reset)

lemma balance_addOrder:
  "currentBalance (getProfile (snd (addOrder inp new_id now s))) =
     (if flt (currentBalance (getProfile s)) (in_amount inp) then currentBalance (getProfile s)
      else json_num (fsub (currentBalance (getProfile s)) (in_amount inp)))"
  by (simp add: getProfile_addOrder)

lemma sub_ten:
  "fsub (Fin 1000) (Fin 10) = Fin 990" "fsub (Fin 990) (Fin 10) = Fin 980"
  "fsub (Fin 980) (Fin 10) = Fin 970" "fsub (Fin 970) (Fin 10) = Fin 960"
  "fsub (Fin 960) (Fin 10) = Fin 950"
  by (simp_all add: fsub_Fin r64)

lemma five_open_facts:
  "open_count five_open = 5" "currentBalance (getProfile five_open) = Fin 950"
  "map marketId (getOrders five_open) = [''m5'', ''m4'', ''m3'', ''m2'', ''m1'']"
  by (simp_all add: five_open_def open_count_addOrder balance_addOrder getOrders_addOrder
      open_count_def buy_sel mk_order_sel sub_ten)

lemma apply_op_order_step:
  assumes "k < length (getOrders s)"
  shows "k < length (getOrders (apply_op x s))
       \<and> (rev (getOrders (apply_op x s)) ! k = rev (getOrders s) ! k
          \<or> (status (rev (getOrders s) ! k) = OPEN
             \<and> status (rev (getOrders (apply_op x s)) ! k) = CLOSED))"
proof (cases x)
  case (AddOrder inp new_id now)
  with assms show ?thesis
    by (simp add: getOrders_addOrder nth_append)
next
  case (CloseOrder orderId px)
  show ?thesis
  proof (cases "findIndex orderId (getOrders s)")
    case None
    with CloseOrder assms show ?thesis by (simp add: getOrders_closeOrder)
  next
    case (Some i)
    then have i: "i < length (getOrders s)" by (rule findIndex_Some_less)
    show ?thesis
    proof (cases "status (getOrders s ! i) = OPEN")
      case False
      with CloseOrder Some assms show ?thesis by (simp add: getOrders_closeOrder Let_def)
    next
      case True
      let ?n = "length (getOrders s)"
      have r: "rev (getOrders s) ! (?n - Suc i) = getOrders s ! i"
        using i by (simp add: rev_nth)
      show ?thesis
      proof (cases "k = ?n - Suc i")
        case True
        with CloseOrder Some \<open>status (getOrders s ! i) = OPEN\<close> assms i r show ?thesis
          by (simp add: getOrders_closeOrder Let_def rev_update)
      next
        case False
        with CloseOrder Some \<open>status (getOrders s ! i) = OPEN\<close> assms i show ?thesis
          by (simp add: getOrders_closeOrder Let_def rev_update)
      qed
    qed
  qed
next
  case (SaveProfile p)
  with assms show ?thesis by simp
qed

lemma closed_state_orders:
  "getOrders closed_state =
     [(mk_order (buy ''m1'' NO 2 (1/2) 4) ''a'' 0)
        \<lparr>status := CLOSED, exitPrice := Some (Fin (3/4)), pnl := Some (Fin 1), roi := Some (Fin 50)\<rparr>]"
proof -
  have "fmul (fdiv (Fin 1) (Fin 2)) (Fin 100) = Fin 50"
    by (simp add: fdiv_Fin fmul_Fin r64)
  then show ?thesis
    by (simp add: closed_state_def getOrders_closeOrder no_state_close Let_def no_state_pnl)
       (simp add: no_state_orders json_order_def mk_order_def buy_def)
qed


























subsection \<open>The sign of a rounded difference\<close>

lemma pow2_powi: "pow2 e = 2 powi e"
  by (simp add: pow2_def power_int_def inverse_eq_divide power_one_over)

lemma pow2_pos [simp]: "0 < pow2 e"
  by (simp add: pow2_powi)

lemma pow2_add: "pow2 (a + b) = pow2 a * pow2 b"
  by (simp add: pow2_powi power_int_add)

lemma pow2_nat: "0 \<le> e \<Longrightarrow> pow2 e = 2 ^ nat e"
  by (simp add: pow2_def)

lemma ilog2_lower: "x \<noteq> 0 \<Longrightarrow> pow2 (ilog2 x) \<le> \<bar>x\<bar>"
proof (cases "1 \<le> \<bar>x\<bar>")
  case True
  let ?m = "\<lfloor>\<bar>x\<bar>\<rfloor>"
  from True have m: "0 < ?m" by linarith
  from bitlen_bounds [OF m] have "2 ^ nat (bitlen ?m - 1) \<le> ?m" by simp
  then have "(2::real) ^ nat (bitlen ?m - 1) \<le> of_int ?m"
    by (metis of_int_le_iff of_int_numeral of_int_power)
  also have "\<dots> \<le> \<bar>x\<bar>" by linarith
  finally have "(2::real) ^ nat (bitlen ?m - 1) \<le> \<bar>x\<bar>" .
  moreover have "0 \<le> bitlen ?m - 1" using m by (simp add: bitlen_alt_def)
  ultimately show ?thesis using True by (simp add: ilog2_def pow2_nat)
next
  case False
  assume x: "x \<noteq> 0"
  let ?m = "\<lceil>1 / \<bar>x\<bar>\<rceil>"
  let ?k = "bitlen (?m - 1)"
  from False x have inv: "1 < 1 / \<bar>x\<bar>" by simp
  then have m: "1 < ?m" by linarith
  then have m1: "0 < ?m - 1" by simp
  from bitlen_bounds [OF m1] have "?m - 1 < 2 ^ nat ?k" by simp
  then have "?m \<le> 2 ^ nat ?k" by simp
  then have "of_int ?m \<le> (2::real) ^ nat ?k"
    by (metis of_int_le_iff of_int_numeral of_int_power)
  moreover have "1 / \<bar>x\<bar> \<le> of_int ?m" by linarith
  ultimately have le: "1 / \<bar>x\<bar> \<le> 2 ^ nat ?k" by linarith
  have "0 < \<bar>x\<bar>" using x by simp
  with le have "1 \<le> 2 ^ nat ?k * \<bar>x\<bar>" by (simp add: pos_divide_le_eq)
  then have "1 / 2 ^ nat ?k \<le> \<bar>x\<bar>" by (simp add: pos_divide_le_eq mult.commute)
  moreover have "0 < ?k" using m1 by (simp add: bitlen_alt_def)
  ultimately show ?thesis using False by (simp add: ilog2_def pow2_def)
qed

lemma round_half_even_ge1: "1 \<le> q \<Longrightarrow> 1 \<le> round_half_even q"
  by (auto simp: round_half_even_def Let_def)

lemma round_half_even_le0: "q \<le> 0 \<Longrightarrow> round_half_even q \<le> 0"
proof -
  assume q: "q \<le> 0"
  then have n: "\<lfloor>q\<rfloor> \<le> 0" by linarith
  show ?thesis
  proof (cases "\<lfloor>q\<rfloor> = 0")
    case True
    with q have "q = 0" by linarith
    then show ?thesis by (simp add: round_half_even_def)
  next
    case False
    have "\<lfloor>q\<rfloor> + 1 \<le> 0" using n False by arith
    with n show ?thesis by (auto simp: round_half_even_def Let_def)
  qed
qed

lemma round64_pos:
  assumes "pow2 (- 1074) \<le> z"
  shows "fgt (round64 z) (Fin 0)"
proof -
  have z: "0 < z" using assms pow2_pos [of "- 1074"] by linarith
  let ?e = "max (ilog2 z - 52) (- 1074)"
  have "pow2 ?e \<le> z"
  proof (cases "ilog2 z - 52 \<le> - 1074")
    case True
    then show ?thesis using assms by (simp add: max_def)
  next
    case False
    have "pow2 (ilog2 z - 52) * 1 \<le> pow2 (ilog2 z - 52) * pow2 52"
      by (rule mult_left_mono) (simp_all add: pow2_def less_imp_le)
    also have "\<dots> = pow2 (ilog2 z)" using pow2_add [of "ilog2 z - 52" 52] by simp
    also have "\<dots> \<le> z" using ilog2_lower [of z] z by simp
    finally show ?thesis using False by (simp add: max_def)
  qed
  then have "1 \<le> z / pow2 ?e" by (simp add: pos_le_divide_eq)
  then have "1 \<le> round_half_even (z / pow2 ?e)" by (rule round_half_even_ge1)
  then have "0 < of_int (round_half_even (z / pow2 ?e)) * pow2 ?e"
    by (simp add: zero_less_mult_iff)
  with z show ?thesis
    by (simp add: round64_def Let_def fgt_def)
qed

lemma round64_nonpos:
  assumes "z \<le> 0"
  shows "\<not> fgt (round64 z) (Fin 0)"
proof (cases "z = 0")
  case True
  then show ?thesis by (simp add: round64_def fgt_def)
next
  case False
  let ?e = "max (ilog2 z - 52) (- 1074)"
  from assms have "z / pow2 ?e \<le> 0" by (simp add: divide_le_0_iff less_imp_le)
  then have "round_half_even (z / pow2 ?e) \<le> 0" by (rule round_half_even_le0)
  then have "of_int (round_half_even (z / pow2 ?e)) * pow2 ?e \<le> 0"
    by (simp add: mult_le_0_iff less_imp_le)
  with assms False show ?thesis
    by (simp add: round64_def Let_def fgt_def)
qed

lemma is_double_multiple:
  assumes "is_double x"
  shows "\<exists>k::int. x = of_int k * pow2 (- 1074)"
proof (cases "x = 0")
  case True
  then show ?thesis by (intro exI [of _ 0]) simp
next
  case False
  let ?e = "max (ilog2 x - 52) (- 1074)"
  let ?n = "round_half_even (x / pow2 ?e)"
  from assms False have "x = of_int ?n * pow2 ?e"
    by (simp add: is_double_def round64_def Let_def split: if_splits)
  moreover have "pow2 ?e = pow2 (?e + 1074) * pow2 (- 1074)"
    using pow2_add [of "?e + 1074" "- 1074"] by simp
  moreover have "pow2 (?e + 1074) = of_int (2 ^ nat (?e + 1074))"
    by (simp add: pow2_nat)
  ultimately have "x = of_int (?n * 2 ^ nat (?e + 1074)) * pow2 (- 1074)"
    by (simp only: of_int_mult mult.assoc)
  then show ?thesis by blast
qed

lemma double_gap:
  assumes "is_double x" and "is_double y" and "x < y"
  shows "pow2 (- 1074) \<le> y - x"
proof -
  from is_double_multiple [OF assms(1)] obtain k :: int where k: "x = of_int k * pow2 (- 1074)" ..
  from is_double_multiple [OF assms(2)] obtain l :: int where l: "y = of_int l * pow2 (- 1074)" ..
  from assms(3) k l have "of_int k * pow2 (- 1074) < of_int l * pow2 (- 1074)" by simp
  then have "(of_int k :: real) < of_int l"
    using mult_less_cancel_right_pos [OF pow2_pos [of "- 1074"]] by blast
  then have "k < l" by simp
  then have "1 \<le> l - k" by simp
  then have "(1::real) \<le> of_int (l - k)" by linarith
  then have "1 * pow2 (- 1074) \<le> of_int (l - k) * pow2 (- 1074)"
    by (rule mult_right_mono) (simp add: less_imp_le)
  with k l show ?thesis by (simp add: algebra_simps)
qed

lemma comparator_sign:
  assumes "is_score a" and "is_score b"
  shows "fgt (fsub b a) (Fin 0) \<longleftrightarrow> \<not> fge a b"
proof (cases a; cases b)
  fix x y assume ab: "a = Fin x" "b = Fin y"
  with assms have d: "is_double x" "is_double y" by (simp_all add: is_score_def)
  show ?thesis
  proof (cases "x < y")
    case True
    from round64_pos [OF double_gap [OF d True]] True ab show ?thesis
      by (simp add: fsub_Fin fge_def)
  next
    case False
    then have "y - x \<le> 0" by simp
    from round64_nonpos [OF this] False ab show ?thesis
      by (simp add: fsub_Fin fge_def)
  qed
qed (use assms in \<open>simp_all add: is_score_def fsub_def fgt_def fge_def\<close>)

lemma decimal_literals:
  "round64 (1/100) = Fin (5764607523034235 / 576460752303423488)"
  "round64 (3/100) = Fin (1080863910568919 / 36028797018963968)"
  "round64 (1/10) = Fin (3602879701896397 / 36028797018963968)"
  "round64 (7/10) = Fin (3152519739159347 / 4503599627370496)"
  by (simp_all add: r64)

lemma rounded_results:
  "fsub (fmul (Fin 1) (Fin (1080863910568919 / 36028797018963968)))
        (Fin (5764607523034235 / 576460752303423488))
     = Fin (2882303761517117 / 144115188075855872)"
  "fsub (Fin 1) (Fin (3602879701896397 / 36028797018963968))
     = Fin (8106479329266893 / 9007199254740992)"
  "fsub (fsub (Fin 1000) (Fin (3152519739159347 / 4503599627370496)))
        (Fin (3602879701896397 / 36028797018963968))
     = Fin (8789056147790233 / 8796093022208)"
  by (simp_all add: fsub_Fin fmul_Fin r64)

lemma ilog2_upper: "x \<noteq> 0 \<Longrightarrow> \<bar>x\<bar> < pow2 (ilog2 x + 1)"
proof (cases "1 \<le> \<bar>x\<bar>")
  case True
  let ?m = "\<lfloor>\<bar>x\<bar>\<rfloor>"
  from True have m: "0 < ?m" by linarith
  from bitlen_bounds [OF m] have "?m < 2 ^ nat (bitlen ?m)" by simp
  then have "?m + 1 \<le> 2 ^ nat (bitlen ?m)" by simp
  then have "of_int (?m + 1) \<le> (2::real) ^ nat (bitlen ?m)"
    by (metis of_int_le_iff of_int_numeral of_int_power)
  moreover have "\<bar>x\<bar> < of_int (?m + 1)" by linarith
  ultimately have "\<bar>x\<bar> < 2 ^ nat (bitlen ?m)" by linarith
  moreover have "0 \<le> bitlen ?m" by (rule bitlen_nonneg)
  ultimately show ?thesis using True by (simp add: ilog2_def pow2_nat)
next
  case False
  assume x: "x \<noteq> 0"
  let ?m = "\<lceil>1 / \<bar>x\<bar>\<rceil>"
  let ?k = "bitlen (?m - 1)"
  from False x have inv: "1 < 1 / \<bar>x\<bar>" by simp
  then have m: "1 < ?m" by linarith
  then have m1: "0 < ?m - 1" by simp
  have k: "0 < ?k" using m1 by (simp add: bitlen_alt_def)
  from bitlen_bounds [OF m1] have "2 ^ nat (?k - 1) \<le> ?m - 1" by simp
  then have "(2::real) ^ nat (?k - 1) \<le> of_int (?m - 1)"
    by (metis of_int_le_iff of_int_numeral of_int_power)
  moreover have "of_int (?m - 1) < 1 / \<bar>x\<bar>" by linarith
  ultimately have lt: "2 ^ nat (?k - 1) < 1 / \<bar>x\<bar>" by linarith
  have xp: "0 < \<bar>x\<bar>" using x by simp
  with lt have "2 ^ nat (?k - 1) * \<bar>x\<bar> < 1" by (simp add: pos_less_divide_eq)
  then have b: "\<bar>x\<bar> < 1 / 2 ^ nat (?k - 1)" by (simp add: pos_less_divide_eq mult.commute)
  have "pow2 (- ?k + 1) = 1 / 2 ^ nat (?k - 1)"
    using k by (auto simp: pow2_def) 
  with b False show ?thesis by (simp add: ilog2_def)
qed

subsection \<open>Facts about the market filter\<close>

lemma fge_trans: "fge a b \<Longrightarrow> fge b c \<Longrightarrow> fge a c"
  by (cases a; cases b; cases c) (simp_all add: fge_def)

lemma fge_total: "is_score a \<Longrightarrow> is_score b \<Longrightarrow> \<not> fge a b \<Longrightarrow> fge b a"
  by (cases a; cases b) (simp_all add: fge_def is_score_def)

lemma sort_insert_after:
  "is_score (sniping_score x) \<Longrightarrow> is_score (sniping_score y) \<Longrightarrow>
     fgt (by_score_desc x y) (Fin 0) \<longleftrightarrow> \<not> fge (sniping_score x) (sniping_score y)"
  by (simp add: by_score_desc_def comparator_sign)

lemma set_sort_insert [simp]: "set (sort_insert x ys) = insert x (set ys)"
  by (induction ys) auto

lemma mset_sort_insert [simp]: "mset (sort_insert x ys) = add_mset x (mset ys)"
  by (induction ys) auto

lemma length_sort_insert [simp]: "length (sort_insert x ys) = Suc (length ys)"
  by (induction ys) auto

lemma sort_desc_simps:
  "sort_desc [] = []" "sort_desc (m # ms) = sort_insert m (sort_desc ms)"
  by (simp_all add: sort_desc_def)

lemma mset_sort_desc: "mset (sort_desc ms) = mset ms"
  by (induction ms) (simp_all add: sort_desc_simps)

lemma set_sort_desc [simp]: "set (sort_desc ms) = set ms"
  using mset_sort_desc [of ms] by (metis set_mset_mset)

lemma length_sort_desc [simp]: "length (sort_desc ms) = length ms"
  using mset_sort_desc [of ms] by (metis size_mset)

lemma desc_sort_insert:
  assumes "desc ys" and "is_score (sniping_score x)"
    and "\<forall>y\<in>set ys. is_score (sniping_score y)"
  shows "desc (sort_insert x ys)"
  using assms
proof (induction ys)
  case Nil
  then show ?case by (simp add: desc_def)
next
  case (Cons y ys)
  show ?case
  proof (cases "fge (sniping_score x) (sniping_score y)")
    case True
    with Cons.prems have "\<not> fgt (by_score_desc x y) (Fin 0)"
      by (simp add: sort_insert_after)
    moreover from True Cons.prems(1)
    have "\<forall>z\<in>set ys. fge (sniping_score x) (sniping_score z)"
      by (auto simp: desc_def intro: fge_trans)
    ultimately show ?thesis using True Cons.prems(1) by (simp add: desc_def)
  next
    case False
    with Cons.prems have after: "fgt (by_score_desc x y) (Fin 0)"
      by (simp add: sort_insert_after)
    from False Cons.prems have yx: "fge (sniping_score y) (sniping_score x)"
      by (simp add: fge_total)
    from Cons.prems have "desc ys" by (simp add: desc_def)
    with Cons.IH Cons.prems have "desc (sort_insert x ys)" by simp
    with after yx Cons.prems(1) show ?thesis by (auto simp: desc_def)
  qed
qed

lemma desc_sort_desc:
  "\<forall>m\<in>set ms. is_score (sniping_score m) \<Longrightarrow> desc (sort_desc ms)"
proof (induction ms)
  case Nil
  then show ?case by (simp add: sort_desc_simps desc_def)
next
  case (Cons m ms)
  then have "desc (sort_desc ms)" by simp
  from desc_sort_insert [OF this, of m] Cons.prems show ?case
    by (simp add: sort_desc_simps)
qed

lemma filter_desc_prefix:
  "desc xs \<Longrightarrow> prefix (filter (\<lambda>m. fge (sniping_score m) t) xs) xs"
proof (induction xs)
  case Nil
  then show ?case by simp
next
  case (Cons x xs)
  then have IH: "prefix (filter (\<lambda>m. fge (sniping_score m) t) xs) xs"
    by (simp add: desc_def)
  show ?case
  proof (cases "fge (sniping_score x) t")
    case True
    with IH show ?thesis by simp
  next
    case False
    with Cons.prems have "\<forall>y\<in>set xs. \<not> fge (sniping_score y) t"
      by (auto simp: desc_def dest: fge_trans)
    then have "filter (\<lambda>m. fge (sniping_score m) t) xs = []"
      by (simp add: filter_empty_conv)
    with False show ?thesis by simp
  qed
qed

lemma threshold_loop_length:
  "threshold_loop lr lt tmin tmax srt ths = Some r \<Longrightarrow> length r \<le> tmax"
  by (induction ths) (auto simp: Let_def split: if_splits)

lemma threshold_loop_prefix:
  "desc srt \<Longrightarrow> threshold_loop lr lt tmin tmax srt ths = Some r \<Longrightarrow> prefix r srt"
proof (induction ths)
  case Nil
  then show ?case by simp
next
  case (Cons t ths)
  let ?f = "filter (\<lambda>m. fge (sniping_score m) (Fin t)) srt"
  have pf: "prefix ?f srt" using Cons.prems(1) by (rule filter_desc_prefix)
  have pt: "prefix (take tmax ?f) srt"
    using pf take_is_prefix prefix_order.trans by blast
  from Cons pf pt show ?case
    by (auto simp: Let_def split: if_splits)
qed

lemma loop_or_fallback_length:
  "n \<le> tmax \<Longrightarrow>
     length (case threshold_loop lr lt tmin tmax srt ths of
               Some result \<Rightarrow> result
             | None \<Rightarrow> take (min n (length srt)) srt) \<le> tmax"
  by (cases "threshold_loop lr lt tmin tmax srt ths") (auto dest: threshold_loop_length)

lemma loop_or_fallback_prefix:
  "desc srt \<Longrightarrow>
     prefix (case threshold_loop lr lt tmin tmax srt ths of
               Some result \<Rightarrow> result
             | None \<Rightarrow> take (min n (length srt)) srt) srt"
  by (cases "threshold_loop lr lt tmin tmax srt ths")
     (auto dest: threshold_loop_prefix simp: take_is_prefix)

lemma filterSnipableMarkets_length:
  "50 \<le> (case tmax of None \<Rightarrow> 200 | Some n \<Rightarrow> n) \<Longrightarrow>
     length (filterSnipableMarkets ms tmin tmax) \<le> (case tmax of None \<Rightarrow> 200 | Some n \<Rightarrow> n)"
  "100 \<le> (case tmax of None \<Rightarrow> 500 | Some n \<Rightarrow> n) \<Longrightarrow>
     length (filterSnipableMarkets_v1 ms tmin tmax) \<le> (case tmax of None \<Rightarrow> 500 | Some n \<Rightarrow> n)"
  unfolding filterSnipableMarkets_def filterSnipableMarkets_v1_def Let_def
  by (rule loop_or_fallback_length; assumption)+

lemma filterSnipableMarkets_prefix:
  assumes "\<forall>m\<in>set ms. is_score (sniping_score m)"
  shows "prefix (filterSnipableMarkets ms tmin tmax) (sort_desc ms)"
    and "prefix (filterSnipableMarkets_v1 ms tmin tmax) (sort_desc ms)"
  unfolding filterSnipableMarkets_def filterSnipableMarkets_v1_def Let_def
  by (rule loop_or_fallback_prefix [OF desc_sort_desc [OF assms]])+

lemma nan_markets_sorted: "sort_desc nan_markets = nan_markets"
  by (simp add: sort_desc_simps nan_markets_def by_score_desc_def fsub_def fgt_def)

lemma threshold_loop_few:
  "length srt < lr \<Longrightarrow> length srt < tmin \<Longrightarrow> length srt \<le> tmax \<Longrightarrow>
     threshold_loop lr lt tmin tmax srt ths = None"
proof (induction ths)
  case Nil
  then show ?case by simp
next
  case (Cons t ths)
  let ?n = "length (filter (\<lambda>m. fge (sniping_score m) (Fin t)) srt)"
  have "?n \<le> length srt" by (rule length_filter_le)
  with Cons.prems have "?n < lr" "?n < tmin" "?n \<le> tmax" by linarith+
  with Cons show ?case by (simp add: Let_def)
qed

lemma nan_markets_filtered:
  "filterSnipableMarkets nan_markets None None = nan_markets"
  "filterSnipableMarkets_v1 nan_markets None None = nan_markets"
proof -
  have l: "length nan_markets = 3" by (simp add: nan_markets_def)
  have "threshold_loop 20 lt 40 200 nan_markets ths = None" for lt ths
    by (rule threshold_loop_few) (simp_all add: l)
  then show "filterSnipableMarkets nan_markets None None = nan_markets"
    unfolding filterSnipableMarkets_def Let_def nan_markets_sorted
    by (simp add: l del: threshold_loop.simps)
  have "threshold_loop 10 lt 25 500 nan_markets ths = None" for lt ths
    by (rule threshold_loop_few) (simp_all add: l)
  then show "filterSnipableMarkets_v1 nan_markets None None = nan_markets"
    unfolding filterSnipableMarkets_v1_def Let_def nan_markets_sorted
    by (simp add: l del: threshold_loop.simps)
qed

lemma three_markets_scores:
  "is_score (Fin 50)" "is_score (Fin 70)" "is_score (Fin 30)"
  by (simp_all add: is_score_def is_double_def r64)

lemma three_markets_sorted:
  "map market (sort_desc three_markets) = [2, 1, 3]"
proof -
  have "fsub (Fin 30) (Fin 70) = Fin (- 40)" "fsub (Fin 30) (Fin 50) = Fin (- 20)"
    "fsub (Fin 70) (Fin 50) = Fin 20"
    by (simp_all add: fsub_Fin r64)
  then show ?thesis
    by (simp add: sort_desc_simps three_markets_def by_score_desc_def fgt_def)
qed

subsection \<open>Facts about the engine\<close>

lemma stats_total: "\<exists>r. stats min_samples window = Some r"
  by (auto simp: stats_def Let_def checked_div_def)

lemma stats_example:
  "stats 2 [\<lparr>ps_asset = ''BTC'', ps_price = 98, ps_timestamp = 0\<rparr>,
            \<lparr>ps_asset = ''BTC'', ps_price = 102, ps_timestamp = 1\<rparr>,
            \<lparr>ps_asset = ''BTC'', ps_price = 100, ps_timestamp = 2\<rparr>] = Some (Stats 100 2 3)"
  by (simp add: stats_def Let_def checked_div_def power2_eq_square)


lemma forced_closes_untouched:
  "i < length ps \<Longrightarrow> p_status (ps ! i) = POS_CLOSED \<or> \<not> forced_close_due cfg now (ps ! i) \<Longrightarrow>
     forced_closes cfg gw_close now ps ! i = ps ! i"
  by (auto simp: forced_closes_def)

section \<open>The claims\<close>

text \<open>
  C4.  When the available balance is strictly below the requested amount (the comparison
  \<open>profile.currentBalance < order.amount\<close> is true), \<open>addOrder\<close> returns \<open>null\<close> and the
  state after the call is the state before it: no order is created, and the stored orders,
  the balance and the trade counter (indeed both storage slots and \<open>DEFAULT_PROFILE\<close>)
  are untouched.
\<close>

theorem addOrder_insufficient_unchanged:
  "flt (currentBalance (getProfile s)) (in_amount inp) \<Longrightarrow> addOrder inp new_id now s = (None, s)"
  by (simp add: addOrder_def Let_def)

theorem addOrder_insufficient_unchanged_witness:
  "flt (currentBalance (getProfile (page_load None None))) (in_amount (buy ''m1'' YES 2000 (1/2) 4000))
   \<and> addOrder (buy ''m1'' YES 2000 (1/2) 4000) ''a'' 0 (page_load None None)
       = (None, page_load None None)"
proof -
  have h: "flt (currentBalance (getProfile (page_load None None)))
             (in_amount (buy ''m1'' YES 2000 (1/2) 4000))"
    by (simp add: page_load_empty DEFAULT_PROFILE_sel buy_sel)
  show ?thesis
    using h addOrder_insufficient_unchanged [OF h, of "''a''" 0] by simp
qed

text \<open>
  C1 (as the claim states it, refuted).  Closing the open NO order of \<open>no_state\<close>, entered
  at 1/2 with 4 shares for an amount of 2, at the exit price 3/4 records the pnl
  \<open>4 * 3/4 - 2 = 1\<close> (both operations are exact in doubles), not
  \<open>(3/4 - 1/2) * 4 * (-1) = -1\<close>.
\<close>

theorem closeOrder_pnl_counterexample:
  "findIndex ''a'' (getOrders no_state) = Some 0
   \<and> status (getOrders no_state ! 0) = OPEN
   \<and> outcome_of (getOrders no_state ! 0) = NO
   \<and> pnl (getOrders (closeOrder ''a'' (Fin (3/4)) no_state) ! 0) = Some (Fin 1)
   \<and> pnl (getOrders (closeOrder ''a'' (Fin (3/4)) no_state) ! 0)
       \<noteq> Some (Fin ((3/4 - val (entryPrice (getOrders no_state ! 0)))
                     * val (shares (getOrders no_state ! 0))
                     * directionSign (outcome_of (getOrders no_state ! 0))))"
proof -
  have "pnl (getOrders (closeOrder ''a'' (Fin (3/4)) no_state) ! 0) = Some (Fin 1)"
    by (simp add: getOrders_closeOrder no_state_close Let_def no_state_pnl) (simp add: no_state_orders)
  then show ?thesis
    by (simp add: no_state_close directionSign_def)
qed

text \<open>
  C1 (amended).  \<open>closeOrder\<close> on the id of an open order (the first order of the list with
  that id) marks it CLOSED and records the exit price and, as realized pnl, the double
  \<open>shares * exitPrice - amount\<close>: the product rounded, then the difference rounded, and
  \<open>null\<close> in storage when that is not a finite number.  Neither the order's outcome nor
  its entry price enters the pnl, and both stay as they were: a YES and a NO order are
  treated alike and no direction sign is applied.
\<close>

theorem closeOrder_pnl:
  assumes "findIndex k (getOrders s) = Some i" and "status (getOrders s ! i) = OPEN"
  shows "status (getOrders (closeOrder k px s) ! i) = CLOSED
       \<and> exitPrice (getOrders (closeOrder k px s) ! i) = Some (json_num px)
       \<and> pnl (getOrders (closeOrder k px s) ! i)
           = Some (json_num (fsub (fmul (shares (getOrders s ! i)) px) (amount (getOrders s ! i))))
       \<and> outcome_of (getOrders (closeOrder k px s) ! i) = outcome_of (getOrders s ! i)
       \<and> entryPrice (getOrders (closeOrder k px s) ! i) = entryPrice (getOrders s ! i)"
proof -
  let ?x = "getOrders s ! i"
  have i: "i < length (getOrders s)" using assms(1) by (rule findIndex_Some_less)
  then have "json_order ?x = ?x" by (rule json_getOrders_nth)
  then have "entryPrice (json_order ?x) = entryPrice ?x" by simp
  then have e: "json_num (entryPrice ?x) = entryPrice ?x" by simp
  from assms i e show ?thesis
    by (simp add: getOrders_closeOrder Let_def)
qed

theorem closeOrder_pnl_witness:
  "findIndex ''a'' (getOrders no_state) = Some 0
   \<and> status (getOrders no_state ! 0) = OPEN
   \<and> outcome_of (getOrders no_state ! 0) = NO
   \<and> pnl (getOrders (closeOrder ''a'' (Fin (3/4)) no_state) ! 0) = Some (Fin 1)
   \<and> outcome_of (getOrders (closeOrder ''a'' (Fin (3/4)) no_state) ! 0) = NO"
  using closeOrder_pnl [OF no_state_close(1) no_state_close(2), of "Fin (3/4)"]
  by (simp add: no_state_close no_state_pnl)

text \<open>
  C2 (as the claim states it, refuted).  With five open orders and a balance of 950, an
  order of 10 on a sixth, distinct market is accepted: \<open>addOrder\<close> returns the order and
  six orders are open.
\<close>

theorem addOrder_position_cap_counterexample:
  "open_count five_open = 5
   \<and> ''m6'' \<notin> set (map marketId (getOrders five_open))
   \<and> \<not> flt (currentBalance (getProfile five_open)) (in_amount (buy ''m6'' YES 10 (1/2) 20))
   \<and> fst (addOrder (buy ''m6'' YES 10 (1/2) 20) ''a6'' 6 five_open) \<noteq> None
   \<and> open_count (snd (addOrder (buy ''m6'' YES 10 (1/2) 20) ''a6'' 6 five_open)) = 6"
proof -
  have "fst (addOrder (buy ''m6'' YES 10 (1/2) 20) ''a6'' 6 five_open) \<noteq> None"
    by (simp add: fst_addOrder five_open_facts buy_sel)
  then show ?thesis
    by (simp add: five_open_facts open_count_addOrder buy_sel)
qed

text \<open>
  C2 (amended).  \<open>addOrder\<close> has no limit on concurrent open orders: whenever the
  comparison \<open>profile.currentBalance < order.amount\<close> is false, whatever the number of open
  orders, it returns the new order, puts it at the head of the stored list, and the number
  of open orders grows by one.
\<close>

theorem addOrder_no_position_cap:
  "\<not> flt (currentBalance (getProfile s)) (in_amount inp) \<Longrightarrow>
     fst (addOrder inp new_id now s) = Some (mk_order inp new_id now)
     \<and> getOrders (snd (addOrder inp new_id now s)) = json_order (mk_order inp new_id now) # getOrders s
     \<and> open_count (snd (addOrder inp new_id now s)) = open_count s + 1"
  by (simp add: open_count_addOrder getOrders_addOrder fst_addOrder)

theorem addOrder_no_position_cap_witness:
  "\<not> flt (currentBalance (getProfile five_open)) (in_amount (buy ''m6'' YES 10 (1/2) 20))
   \<and> open_count (snd (addOrder (buy ''m6'' YES 10 (1/2) 20) ''a6'' 6 five_open)) = 5 + 1"
proof -
  have h: "\<not> flt (currentBalance (getProfile five_open)) (in_amount (buy ''m6'' YES 10 (1/2) 20))"
    by (simp add: five_open_facts buy_sel)
  from addOrder_no_position_cap [OF h, of "''a6''" 6] h show ?thesis
    by (simp add: five_open_facts)
qed

text \<open>
  C5 (as the claim states it, refuted).  Two orders on the same market one second apart
  (\<open>Date.now()\<close> 1000 and 2000, in milliseconds; a cooldown of 60 seconds) are both
  accepted and both open.
\<close>

theorem addOrder_cooldown_counterexample:
  "fst (addOrder (buy ''BTC'' YES 10 (1/2) 20) ''a'' 1000 (reset (Fin 1000) (page_load None None))) \<noteq> None
   \<and> fst btc_twice \<noteq> None
   \<and> map order_summary (getOrders (snd btc_twice))
       = [(''BTC'', 2000, OPEN), (''BTC'', 1000, OPEN)]
   \<and> (2000 - 1000 :: int) < cooldownSeconds default_config * 1000"
proof -
  have 1: "fst (addOrder (buy ''BTC'' YES 10 (1/2) 20) ''a'' 1000 (reset (Fin 1000) (page_load None None))) \<noteq> None"
    by (simp add: fst_addOrder buy_sel)
  have 2: "fst btc_twice \<noteq> None"
    by (simp add: btc_twice_def fst_addOrder balance_addOrder buy_sel sub_ten)
  have 3: "map order_summary (getOrders (snd btc_twice))
       = [(''BTC'', 2000, OPEN), (''BTC'', 1000, OPEN)]"
    by (simp add: btc_twice_def getOrders_addOrder balance_addOrder
        buy_sel mk_order_sel order_summary_def sub_ten)
  from 1 2 3 show ?thesis by (simp add: default_config_def)
qed

text \<open>
  C5 (amended).  \<open>addOrder\<close> keeps no per-asset time of the last trade and applies no
  cooldown: after an accepted order, a further order is accepted whenever the balance that
  remains covers its amount, whatever the two markets (the same one included) and whatever
  the two times.
\<close>

theorem addOrder_no_cooldown:
  assumes "\<not> flt (currentBalance (getProfile s)) (in_amount inp1)"
    and "\<not> flt (currentBalance (getProfile (snd (addOrder inp1 id1 t1 s)))) (in_amount inp2)"
  shows "fst (addOrder inp1 id1 t1 s) = Some (mk_order inp1 id1 t1)
       \<and> fst (addOrder inp2 id2 t2 (snd (addOrder inp1 id1 t1 s))) = Some (mk_order inp2 id2 t2)
       \<and> getOrders (snd (addOrder inp2 id2 t2 (snd (addOrder inp1 id1 t1 s))))
           = json_order (mk_order inp2 id2 t2) # json_order (mk_order inp1 id1 t1) # getOrders s"
  using assms by (simp add: fst_addOrder getOrders_addOrder)

theorem addOrder_no_cooldown_witness:
  "\<not> flt (currentBalance (getProfile (reset (Fin 1000) (page_load None None))))
         (in_amount (buy ''BTC'' YES 10 (1/2) 20))
   \<and> \<not> flt (currentBalance (getProfile (snd (addOrder (buy ''BTC'' YES 10 (1/2) 20) ''a'' 1000
                                               (reset (Fin 1000) (page_load None None))))))
           (in_amount (buy ''BTC'' NO 10 (1/2) 20))
   \<and> fst (addOrder (buy ''BTC'' NO 10 (1/2) 20) ''b'' 1000
            (snd (addOrder (buy ''BTC'' YES 10 (1/2) 20) ''a'' 1000 (reset (Fin 1000) (page_load None None)))))
       = Some (mk_order (buy ''BTC'' NO 10 (1/2) 20) ''b'' 1000)"
proof -
  have h1: "\<not> flt (currentBalance (getProfile (reset (Fin 1000) (page_load None None))))
         (in_amount (buy ''BTC'' YES 10 (1/2) 20))"
    by (simp add: buy_sel)
  have h2: "\<not> flt (currentBalance (getProfile (snd (addOrder (buy ''BTC'' YES 10 (1/2) 20) ''a'' 1000
                                               (reset (Fin 1000) (page_load None None))))))
           (in_amount (buy ''BTC'' NO 10 (1/2) 20))"
    by (simp add: balance_addOrder buy_sel sub_ten)
  from addOrder_no_cooldown [OF h1 h2, of "''b''" 1000] h1 h2 show ?thesis
    by simp
qed

text \<open>
  C3.  Orders are told apart by their place counted from the end of the stored list
  (\<open>addOrder\<close> puts new orders at the front, so that place never changes; ids are random
  and may repeat).  For every state and every sequence of \<open>addOrder\<close>, \<open>closeOrder\<close> and
  \<open>saveProfile\<close> calls: the order is still in the list; if it was CLOSED (or, more
  generally, not OPEN) it is the very same record afterwards, all fields including \<open>pnl\<close>;
  and if its status differs at all, then it went from OPEN to CLOSED.  (\<open>reset\<close> is not
  in these sequences: it replaces the list by the empty list.)
\<close>

theorem closed_order_terminal:
  assumes "k < length (getOrders s)"
  shows "k < length (getOrders (run ops s))
       \<and> (status (rev (getOrders s) ! k) \<noteq> OPEN \<longrightarrow>
            rev (getOrders (run ops s)) ! k = rev (getOrders s) ! k)
       \<and> (status (rev (getOrders (run ops s)) ! k) \<noteq> status (rev (getOrders s) ! k) \<longrightarrow>
            status (rev (getOrders s) ! k) = OPEN
            \<and> status (rev (getOrders (run ops s)) ! k) = CLOSED)"
  using assms
proof (induction ops arbitrary: s)
  case Nil
  then show ?case by simp
next
  case (Cons x xs)
  from apply_op_order_step [OF Cons.prems, of x]
  have len: "k < length (getOrders (apply_op x s))"
    and step: "rev (getOrders (apply_op x s)) ! k = rev (getOrders s) ! k
          \<or> (status (rev (getOrders s) ! k) = OPEN
             \<and> status (rev (getOrders (apply_op x s)) ! k) = CLOSED)"
    by simp_all
  from Cons.IH [OF len] step show ?case
    by auto
qed

theorem closed_order_terminal_witness:
  "0 < length (getOrders closed_state)
   \<and> status (rev (getOrders closed_state) ! 0) = CLOSED
   \<and> rev (getOrders (run [CloseOrder ''a'' (Fin 1), AddOrder (buy ''m1'' YES 2 (1/2) 4) ''a'' 5,
                          CloseOrder ''a'' (Fin 2)] closed_state)) ! 0
       = rev (getOrders closed_state) ! 0
   \<and> pnl (rev (getOrders (run [CloseOrder ''a'' (Fin 1), AddOrder (buy ''m1'' YES 2 (1/2) 4) ''a'' 5,
                          CloseOrder ''a'' (Fin 2)] closed_state)) ! 0) = Some (Fin 1)"
proof -
  have h: "0 < length (getOrders closed_state)"
    by (simp add: closed_state_orders)
  have c: "status (rev (getOrders closed_state) ! 0) = CLOSED"
    by (simp add: closed_state_orders)
  have p: "pnl (rev (getOrders closed_state) ! 0) = Some (Fin 1)"
    by (simp add: closed_state_orders)
  from closed_order_terminal [OF h, of "[CloseOrder ''a'' (Fin 1), AddOrder (buy ''m1'' YES 2 (1/2) 4) ''a'' 5,
                          CloseOrder ''a'' (Fin 2)]"] h c p
  show ?thesis by simp
qed




text \<open>
  C10 (as the claim states it, refuted).  On three markets with the scores 50, NaN and 70
  every comparison with the NaN score counts as 0, the array stays as it is, no threshold
  keeps enough markets, and the fallback returns all three in the order 50, NaN, 70: not
  a descending order.  No arrangement of these three scores is descending, since neither
  \<open>NaN >= x\<close> nor \<open>x >= NaN\<close> holds.
\<close>

theorem filterSnipableMarkets_nan_counterexample:
  "map sniping_score (filterSnipableMarkets nan_markets None None) = [Fin 50, NaN, Fin 70]
   \<and> map sniping_score (filterSnipableMarkets_v1 nan_markets None None) = [Fin 50, NaN, Fin 70]
   \<and> \<not> fge (Fin 50) NaN \<and> \<not> fge NaN (Fin 70) \<and> \<not> fge (Fin 50) (Fin 70)
   \<and> \<not> desc (filterSnipableMarkets nan_markets None None)
   \<and> \<not> desc (filterSnipableMarkets_v1 nan_markets None None)"
  by (simp add: nan_markets_filtered) (simp add: nan_markets_def desc_def fge_def)

text \<open>
  C10 (amended).  For every input list, \<open>filterSnipableMarkets\<close> called without
  \<open>targetMin\<close> and \<open>targetMax\<close> returns at most \<open>targetMax\<close> elements: at most 200 for
  \<open>dynamic-filter.ts\<close>, at most 500 for the older copy.  When no score of the input is
  NaN (every score is a double or an infinity), the sorted array is a rearrangement of the
  input with the highest score first, and the returned list is a prefix of it.  Every way
  out of the function is covered: the in-range return, the cap, the last resort and the
  fallback.
\<close>

theorem filterSnipableMarkets_bounded_prefix:
  "length (filterSnipableMarkets markets None None) \<le> 200
   \<and> length (filterSnipableMarkets_v1 markets None None) \<le> 500
   \<and> mset (sort_desc markets) = mset markets
   \<and> ((\<forall>m\<in>set markets. is_score (sniping_score m)) \<longrightarrow>
        sorted_wrt (\<lambda>a b. fge (sniping_score a) (sniping_score b)) (sort_desc markets)
        \<and> prefix (filterSnipableMarkets markets None None) (sort_desc markets)
        \<and> prefix (filterSnipableMarkets_v1 markets None None) (sort_desc markets))"
  using filterSnipableMarkets_length [where ms = markets and tmin = None and tmax = None]
    filterSnipableMarkets_prefix [where ms = markets and tmin = None and tmax = None]
    desc_sort_desc [of markets]
  by (simp add: mset_sort_desc desc_def)

theorem filterSnipableMarkets_bounded_prefix_witness:
  "is_score (Fin 50) \<and> is_score (Fin 70) \<and> is_score (Fin 30)
   \<and> map market (sort_desc three_markets) = [2, 1, 3]
   \<and> prefix (filterSnipableMarkets three_markets None None) (sort_desc three_markets)
   \<and> prefix (filterSnipableMarkets_v1 three_markets None None) (sort_desc three_markets)
   \<and> length (filterSnipableMarkets three_markets None None) \<le> 200"
proof -
  have h: "\<forall>m\<in>set three_markets. is_score (sniping_score m)"
    by (simp add: three_markets_def three_markets_scores)
  from filterSnipableMarkets_bounded_prefix [of three_markets] h show ?thesis
    by (simp add: three_markets_scores three_markets_sorted)
qed

text \<open>
  C6.  Whenever the window statistics yield a z-score \<open>z\<close> with \<open>|z| < entryThreshold\<close>,
  \<open>evaluate\<close> emits EXIT or NONE, so neither ENTER_YES nor ENTER_NO.  ENTER_NO is emitted
  only when no position is open for the asset and \<open>z \<ge> entryThreshold\<close>; ENTER_YES only
  when no position is open and \<open>z \<le> - entryThreshold\<close>.
\<close>

theorem evaluate_enter_only_beyond_threshold:
  "(zscore currentPrice windowStats = Some z \<and> \<bar>z\<bar> < entryThreshold cfg \<longrightarrow>
      evaluate cfg currentPrice windowStats positionOpen = Some EXIT
      \<or> evaluate cfg currentPrice windowStats positionOpen = Some NONE)
   \<and> (evaluate cfg currentPrice windowStats positionOpen = Some ENTER_NO \<longrightarrow>
        positionOpen = None
        \<and> (\<exists>z. zscore currentPrice windowStats = Some z \<and> z \<ge> entryThreshold cfg))
   \<and> (evaluate cfg currentPrice windowStats positionOpen = Some ENTER_YES \<longrightarrow>
        positionOpen = None
        \<and> (\<exists>z. zscore currentPrice windowStats = Some z \<and> z \<le> - entryThreshold cfg))"
  by (cases windowStats) (auto simp: evaluate_def split: option.splits if_splits)

theorem evaluate_enter_only_beyond_threshold_witness:
  "zscore 101 (Stats 100 2 3) = Some (1/2) \<and> \<bar>1/2 :: real\<bar> < entryThreshold default_config
   \<and> evaluate default_config 101 (Stats 100 2 3) None = Some NONE
   \<and> evaluate default_config 106 (Stats 100 2 3) None = Some ENTER_NO
   \<and> zscore 106 (Stats 100 2 3) = Some 3 \<and> 3 \<ge> entryThreshold default_config
   \<and> evaluate default_config 94 (Stats 100 2 3) None = Some ENTER_YES
   \<and> zscore 94 (Stats 100 2 3) = Some (- 3) \<and> - 3 \<le> - entryThreshold default_config"
  using evaluate_enter_only_beyond_threshold [of 101 "Stats 100 2 3" "1/2" default_config None]
    evaluate_enter_only_beyond_threshold [of 106 "Stats 100 2 3" 3 default_config None]
    evaluate_enter_only_beyond_threshold [of 94 "Stats 100 2 3" "-3" default_config None]
  by (simp add: zscore_def checked_div_def evaluate_def default_config_def)

text \<open>
  C8.  For a window holding fewer samples than the configured minimum, and for a window of
  one sample whatever the minimum, \<open>stats\<close> returns the insufficient-data result and the
  evaluation of that window emits NONE.  On every window \<open>stats\<close> returns a result: it
  never divides by zero.
\<close>

theorem stats_insufficient:
  "(length window < minSamples cfg \<or> length window = 1 \<longrightarrow>
      stats (minSamples cfg) window = Some Insufficient
      \<and> signal_for cfg currentPrice window positionOpen = Some NONE)
   \<and> (\<exists>r. stats (minSamples cfg) window = Some r)"
  using stats_total [of "minSamples cfg" window]
  by (auto simp: stats_def Let_def evaluate_def signal_for_def)

theorem stats_insufficient_witness:
  "length [\<lparr>ps_asset = ''BTC'', ps_price = 98, ps_timestamp = 0\<rparr>] = 1
   \<and> stats (minSamples default_config) [\<lparr>ps_asset = ''BTC'', ps_price = 98, ps_timestamp = 0\<rparr>]
       = Some Insufficient
   \<and> signal_for default_config 98 [\<lparr>ps_asset = ''BTC'', ps_price = 98, ps_timestamp = 0\<rparr>] None
       = Some NONE"
  using stats_insufficient [of "[\<lparr>ps_asset = ''BTC'', ps_price = 98, ps_timestamp = 0\<rparr>]"
      default_config 98 None]
  by simp



end
